theory Spec2Isabelle
  imports
    Complex_Main
    "HOL-Library.Char_ord"
    "HOL-Library.List_Lexorder"
    "HOL-Library.Multiset"
begin

section \<open>Shared data model\<close>

text \<open>
  Go strings are byte sequences and \<open>string\<close> is a list of 8-bit characters. With
  the character order of \<open>Char_ord\<close> and the list order of \<open>List_Lexorder\<close>, the
  order \<open><\<close> on \<open>string\<close> is the byte-wise lexicographic order, which is what Go's
  \<open><\<close> on strings computes.
\<close>

type_synonym mediatype = string

text \<open>
  Go's \<open>error\<close> values: \<open>errors.New msg\<close>, \<open>errors.Wrap err msg\<close>, and the errors
  that the collaborators (fetcher, package-document parser) hand back.
\<close>

datatype error = New string | Wrap error string | ResourceError string

text \<open>
  \<open>manifest.Link\<close>. Only the fields that the two parsers read or write are named; every
  other field of the Go struct (title, properties, dimensions, ...) lives in the record's
  extension part, so \<open>'a link_scheme\<close> is a link with arbitrary further fields.
\<close>

record link =
  Href :: string
  MediaType :: mediatype
  Rels :: "string list"

record metadata =
  Identifier :: string
  LocalizedTitle :: string
  ConformsTo :: "string list"

record 'a manifest =
  Context :: "string list"
  Metadata :: metadata
  ReadingOrder :: "'a link_scheme list"

record asset =
  Name :: string
  AssetMediaType :: mediatype

text \<open>
  An XML document as the query engine sees it: element nodes with a name, attributes and
  children, and text nodes.
\<close>

datatype xml = Element string "(string \<times> string) list" "xml list" | Text string

text \<open>
  The namespace constants of the package (\<open>NamespaceOPF\<close>, ...) are declared outside the
  two source files; they are kept symbolic. \<open>NamespaceURI u\<close> is a namespace written as a
  string literal in the source.
\<close>

datatype namespace =
  NamespaceOPF | NamespaceDC | VocabularyDCTerms | NamespaceENC | NamespaceSIG | NamespaceCOMP
| NamespaceNCX | NamespaceXHTML | NamespaceOPS | NamespaceURI string

text \<open>
  \<open>fetcher.Fetcher\<close> is an interface; a value of it is the record of its methods.
  \<open>Links\<close> is \<open>Links()\<close>, \<open>Read h\<close> is \<open>Get(manifest.Link{Href: h}).Read()\<close> and
  \<open>ReadAsXML h ns\<close> is \<open>Get(manifest.Link{Href: h}).ReadAsXML(ns)\<close>, where \<open>ns\<close> is the
  table of namespace prefixes (\<open>nil\<close> is the empty table). An href is the string it is
  built from (\<open>NewHREF\<close>, \<open>MustNewHREFFromString\<close>).
\<close>

record 'a fetcher =
  Links :: "error + 'a link_scheme list"
  Read :: "string \<Rightarrow> error + string"
  ReadAsXML :: "string \<Rightarrow> (namespace \<times> string) list \<Rightarrow> error + xml"

datatype ReflowableStrategy = RecommendedReflowableStrategy | OtherReflowableStrategy string

datatype ResourceContentIteratorFactory = HTMLFactory

datatype service_name =
  PositionsService_Name | ContentService_Name | GuidedNavigationService_Name

datatype service_factory =
  PositionsServiceFactory ReflowableStrategy
| DefaultContentServiceFactory "ResourceContentIteratorFactory list"
| MediaOverlayFactory
| PerResourcePositionsServiceFactory mediatype

text \<open>\<open>pub.Builder\<close>, as \<open>pub.NewBuilder manifest fetcher services\<close> fills it.\<close>

record 'a builder =
  BuilderManifest :: "'a manifest"
  BuilderFetcher :: "'a fetcher"
  BuilderServices :: "(service_name \<times> service_factory) list"


section \<open>Image publications: \<open>pkg/parser/parser_image.go\<close>\<close>

text \<open>
  What \<open>ImageParser\<close> uses from other packages and that is not part of the two source files:
  the hidden-file test of \<open>pkg/internal/extensions\<close>, the bitmap test and the equality of
  media types with the two comic-book archive types, the path of a link's URL (a function of
  its href), the title heuristic, and four constants.
\<close>

record 'a image_env =
  IsHiddenOrThumbs :: "string \<Rightarrow> bool"
  IsBitmap :: "mediatype \<Rightarrow> bool"
  MediaTypeEqual :: "mediatype \<Rightarrow> mediatype \<Rightarrow> bool"
  CBZ :: mediatype
  CBR :: mediatype
  URLPath :: "string \<Rightarrow> string"
  guessPublicationTitleFromFileStructure :: "'a fetcher \<Rightarrow> string"
  WebpubManifestContext :: string
  ProfileDivina :: string

text \<open>
  \<open>strings.ToLower\<close> on the bytes of an ASCII path: the letters \<open>A\<close> to \<open>Z\<close> are
  mapped to \<open>a\<close> to \<open>z\<close>, every other byte is kept. (Paths with letters outside ASCII are
  outside this model of \<open>ToLower\<close>.)
\<close>

definition toLowerByte :: "char \<Rightarrow> char" where
  "toLowerByte c =
     (if CHR ''A'' \<le> c \<and> c \<le> CHR ''Z'' then char_of (of_char c + (32::nat)) else c)"

definition ToLower :: "string \<Rightarrow> string" where
  "ToLower s = map toLowerByte s"

text \<open>
  \<open>filepath.Ext\<close>: scan from the last byte towards the first, stop at a path separator,
  return the suffix that starts at the first dot met. \<open>ext_scan\<close> walks the reversed path
  and rebuilds the suffix already passed.
\<close>

fun ext_scan :: "string \<Rightarrow> string \<Rightarrow> string" where
  "ext_scan [] acc = []"
| "ext_scan (c # rest) acc =
     (if c = CHR ''/'' then []
      else if c = CHR ''.'' then c # acc
      else ext_scan rest (c # acc))"

definition Ext :: "string \<Rightarrow> string" where
  "Ext path = ext_scan (rev path) []"

definition allowed_extensions_image :: "string list" where
  "allowed_extensions_image = [''acbf'', ''xml'', ''txt'', ''json'']"

text \<open>Lines 94 to 97 of \<open>accepts\<close>: the lower-cased extension without its leading dot.\<close>

definition fext :: "string \<Rightarrow> string" where
  "fext path = (let e = Ext (ToLower path) in if length e > 1 then tl e else e)"

text \<open>The loop of \<open>accepts\<close> over the links: \<open>False\<close> at the first link that fails.\<close>

fun accepts_links :: "('a, 'b) image_env_scheme \<Rightarrow> 'c link_scheme list \<Rightarrow> bool" where
  "accepts_links env [] = True"
| "accepts_links env (l # ls) =
     (let path = URLPath env (Href l) in
      if IsHiddenOrThumbs env path then accepts_links env ls
      else if IsBitmap env (MediaType l) then accepts_links env ls
      else if fext path \<notin> set allowed_extensions_image then False
      else accepts_links env ls)"

definition accepts :: "'a image_env \<Rightarrow> asset \<Rightarrow> 'a fetcher \<Rightarrow> error + bool" where
  "accepts env a f =
     (if MediaTypeEqual env (AssetMediaType a) (CBZ env)
         \<or> MediaTypeEqual env (AssetMediaType a) (CBR env)
      then Inr True
      else case Links f of
             Inl err \<Rightarrow> Inl err
           | Inr links \<Rightarrow> Inr (accepts_links env links))"

text \<open>The filter loop of \<open>Parse\<close> (lines 31 to 40).\<close>

definition relevant :: "('a, 'b) image_env_scheme \<Rightarrow> 'c link_scheme \<Rightarrow> bool" where
  "relevant env l \<longleftrightarrow>
     \<not> (IsHiddenOrThumbs env (URLPath env (Href l)) \<or> \<not> IsBitmap env (MediaType l))"

definition filter_links ::
  "('a, 'b) image_env_scheme \<Rightarrow> 'c link_scheme list \<Rightarrow> 'c link_scheme list" where
  "filter_links env links = filter (relevant env) links"

text \<open>
  \<open>sort.Slice\<close> with the comparison \<open>readingOrder[i].Href.String() < readingOrder[j].Href.String()\<close>.
  The library promises a permutation that is ascending for the comparison and leaves the
  order of links with equal hrefs open; the model is the insertion sort by key, and the
  theorems below use of it only that promise.
\<close>

definition sort_by_href :: "'a link_scheme list \<Rightarrow> 'a link_scheme list" where
  "sort_by_href xs = sort_key Href xs"

text \<open>Line 58: \<open>readingOrder[0].Rels = []string{"cover"}\<close>, on a non-empty slice.\<close>

definition tag_cover :: "'a link_scheme list \<Rightarrow> 'a link_scheme list" where
  "tag_cover xs = xs[0 := (xs ! 0)\<lparr>Rels := [''cover'']\<rparr>]"

text \<open>
  \<open>ImageParser.Parse\<close>. The Go result \<open>(nil, nil)\<close> is \<open>Inr None\<close>, \<open>(nil, err)\<close> is
  \<open>Inl err\<close>, and a builder is \<open>Inr (Some b)\<close>.
\<close>

definition ImageParser_Parse ::
  "'a image_env \<Rightarrow> asset \<Rightarrow> 'a fetcher \<Rightarrow> error + 'a builder option" where
  "ImageParser_Parse env a f =
     (case accepts env a f of
        Inl err \<Rightarrow> Inl err
      | Inr False \<Rightarrow> Inr None
      | Inr True \<Rightarrow>
          (case Links f of
             Inl err \<Rightarrow> Inl err
           | Inr links \<Rightarrow>
               (let readingOrder = filter_links env links in
                if length readingOrder = 0
                then Inl (New ''no bitmap found in the publication'')
                else
                  let sorted_order = sort_by_href readingOrder;
                      guessed = guessPublicationTitleFromFileStructure env f;
                      title = (if guessed = '''' then Name a else guessed);
                      tagged = tag_cover sorted_order;
                      m = \<lparr>Context = [WebpubManifestContext env],
                           Metadata = \<lparr>Identifier = '''', LocalizedTitle = title,
                                       ConformsTo = [ProfileDivina env]\<rparr>,
                           ReadingOrder = tagged\<rparr>;
                      services = [(PositionsService_Name,
                               PerResourcePositionsServiceFactory ''image/*'')]
                  in Inr (Some \<lparr>BuilderManifest = m, BuilderFetcher = f,
                                 BuilderServices = services\<rparr>))))"


section \<open>EPUB publications: package \<open>epub\<close>\<close>

text \<open>
  \<open>EPUBVersion\<close> is a \<open>float64\<close>. A float is a rational number, an infinity or NaN, and
  \<open>f64_less\<close> is Go's \<open><\<close> on such values: every comparison with NaN is false.
\<close>

datatype float64 = F64 rat | F64_PosInf | F64_NegInf | F64_NaN

fun f64_less :: "float64 \<Rightarrow> float64 \<Rightarrow> bool" where
  "f64_less (F64 a) (F64 b) = (a < b)"
| "f64_less (F64 a) F64_PosInf = True"
| "f64_less F64_NegInf (F64 b) = True"
| "f64_less F64_NegInf F64_PosInf = True"
| "f64_less _ _ = False"

fun f64_ge :: "float64 \<Rightarrow> float64 \<Rightarrow> bool" where
  "f64_ge (F64 a) (F64 b) = (a \<ge> b)"
| "f64_ge F64_PosInf (F64 b) = True"
| "f64_ge (F64 a) F64_NegInf = True"
| "f64_ge F64_PosInf F64_NegInf = True"
| "f64_ge F64_PosInf F64_PosInf = True"
| "f64_ge F64_NegInf F64_NegInf = True"
| "f64_ge _ _ = False"

text \<open>The parts of \<open>PackageDocument\<close> that the parser reads.\<close>

record Item =
  ID :: string
  ItemHref :: string
  ItemMediaType :: mediatype
  Properties :: "string list"

record SpineRef =
  TOC :: string

record PackageDocument =
  Path :: string
  EPUBVersion :: float64
  Manifest :: "Item list"
  Spine :: SpineRef

text \<open>\<open>NewDeobfuscator(identifier).Transform\<close>: the transform keyed by the identifier.\<close>

datatype transform = DeobfuscatorTransform string

text \<open>The fields of the \<open>PublicationFactory\<close> literal of \<open>Parse\<close>.\<close>

record ('a, 'e) PublicationFactory =
  FallbackTitle :: string
  FactoryPackageDocument :: PackageDocument
  NavigationData :: "string \<rightharpoonup> 'a link_scheme list"
  EncryptionData :: "string \<rightharpoonup> 'e"
  DisplayOptions :: "string \<rightharpoonup> string"

text \<open>
  What the EPUB parser uses and the source file does not define: the EPUB and NCX media
  types with their tests, the vocabulary prefix of manifest properties, the discovery of the
  package document, the grammar parsers (package document, NCX, navigation document,
  encryption), the resolution of an href against the path of the package document, the
  manifest factory and the transforming fetcher.
\<close>

record ('a, 'e) epub_env =
  EPUB :: mediatype
  EPUBEqual :: "mediatype \<Rightarrow> mediatype \<Rightarrow> bool"
  NCX_Contains :: "mediatype \<Rightarrow> bool"
  VocabularyItem :: string
  GetRootFilePath :: "'a fetcher \<Rightarrow> error + string"
  ParsePackageDocument :: "xml \<Rightarrow> string \<Rightarrow> error + PackageDocument"
  Resolve :: "string \<Rightarrow> string \<Rightarrow> string"
  ParseNCX :: "xml \<Rightarrow> string \<Rightarrow> (string \<rightharpoonup> 'a link_scheme list)"
  ParseNavDoc :: "xml \<Rightarrow> string \<Rightarrow> (string \<rightharpoonup> 'a link_scheme list)"
  ParseEncryption :: "xml \<Rightarrow> (string \<rightharpoonup> 'e)"
  Create :: "('a, 'e) PublicationFactory \<Rightarrow> 'a manifest"
  NewTransformingFetcher :: "'a fetcher \<Rightarrow> transform \<Rightarrow> 'a fetcher"

text \<open>
  The calls a resolver makes to its collaborators, in order: a resource read through the
  fetcher, and a run of one of the two navigation grammars on a fetched document.
\<close>

datatype event = ReadXML string | RunParseNCX string | RunParseNavDoc string

subsection \<open>The XML queries of \<open>parseDisplayOptions\<close>\<close>

text \<open>
  The query engine is a library. These are the four queries the source makes, on the tree
  model: \<open>SelectElement "//platform"\<close> is the first element of that name in document order,
  \<open>SelectElements "option"\<close> are the child elements of that name, \<open>SelectAttr\<close> is the value
  of the attribute or the empty string, \<open>InnerText\<close> is the text of all text nodes below.
\<close>

fun subtree :: "xml \<Rightarrow> xml list" where
  "subtree (Text t) = [Text t]"
| "subtree (Element n as cs) = Element n as cs # concat (map subtree cs)"

fun is_element :: "string \<Rightarrow> xml \<Rightarrow> bool" where
  "is_element n (Element m as cs) = (m = n)"
| "is_element n (Text t) = False"

definition SelectElement_descendant :: "xml \<Rightarrow> string \<Rightarrow> xml option" where
  "SelectElement_descendant doc n = find (is_element n) (subtree doc)"

fun SelectElements :: "xml \<Rightarrow> string \<Rightarrow> xml list" where
  "SelectElements (Element m as cs) n = filter (is_element n) cs"
| "SelectElements (Text t) n = []"

fun SelectAttr :: "xml \<Rightarrow> string \<Rightarrow> string" where
  "SelectAttr (Element m as cs) n = (case map_of as n of Some v \<Rightarrow> v | None \<Rightarrow> '''')"
| "SelectAttr (Text t) n = ''''"

fun InnerText :: "xml \<Rightarrow> string" where
  "InnerText (Text t) = t"
| "InnerText (Element n as cs) = concat (map InnerText cs)"

subsection \<open>The three resolvers\<close>

definition encryption_path :: string where
  "encryption_path = ''META-INF/encryption.xml''"

definition parseEncryptionData ::
  "('a, 'e) epub_env \<Rightarrow> 'a fetcher \<Rightarrow> (string \<rightharpoonup> 'e) \<times> event list" where
  "parseEncryptionData env f =
     (case ReadAsXML f encryption_path
             [(NamespaceENC, ''enc''), (NamespaceSIG, ''ds''), (NamespaceCOMP, ''comp'')] of
        Inl err \<Rightarrow> (Map.empty, [ReadXML encryption_path])
      | Inr n \<Rightarrow> (ParseEncryption env n, [ReadXML encryption_path]))"

text \<open>Lines 95 to 110: the choice of the NCX item.\<close>

definition ncxItem :: "('a, 'e, 'z) epub_env_scheme \<Rightarrow> PackageDocument \<Rightarrow> Item option" where
  "ncxItem env packageDocument =
     (if TOC (Spine packageDocument) \<noteq> ''''
      then find (\<lambda>v. ID v = TOC (Spine packageDocument)) (Manifest packageDocument)
      else find (\<lambda>v. NCX_Contains env (ItemMediaType v)) (Manifest packageDocument))"

text \<open>
  The choice of the legacy item as the specification words it, for comparison with
  \<open>ncxItem\<close>: the entry whose id is the spine's table-of-contents id, otherwise the first
  entry of NCX media type.
\<close>

definition spec_ncxItem :: "('a, 'e, 'z) epub_env_scheme \<Rightarrow> PackageDocument \<Rightarrow> Item option" where
  "spec_ncxItem env packageDocument =
     (case find (\<lambda>v. ID v = TOC (Spine packageDocument)) (Manifest packageDocument) of
        Some item \<Rightarrow> Some item
      | None \<Rightarrow> find (\<lambda>v. NCX_Contains env (ItemMediaType v)) (Manifest packageDocument))"

text \<open>Lines 123 to 134: the first item with the property \<open>VocabularyItem + "nav"\<close>.\<close>

definition navItem :: "('a, 'e, 'z) epub_env_scheme \<Rightarrow> PackageDocument \<Rightarrow> Item option" where
  "navItem env packageDocument =
     find (\<lambda>v. list_ex (\<lambda>st. st = VocabularyItem env @ ''nav'') (Properties v))
       (Manifest packageDocument)"

definition parseNavigationData ::
  "('a, 'e) epub_env \<Rightarrow> PackageDocument \<Rightarrow> 'a fetcher
     \<Rightarrow> (string \<rightharpoonup> 'a link_scheme list) \<times> event list" where
  "parseNavigationData env packageDocument f =
     (if f64_less (EPUBVersion packageDocument) (F64 3)
      then (case ncxItem env packageDocument of
              None \<Rightarrow> (Map.empty, [])
            | Some item \<Rightarrow>
                (let ncxPath = Resolve env (Path packageDocument) (ItemHref item) in
                 case ReadAsXML f ncxPath [(NamespaceNCX, ''ncx'')] of
                   Inl nerr \<Rightarrow> (Map.empty, [ReadXML ncxPath])
                 | Inr n \<Rightarrow> (ParseNCX env n ncxPath, [ReadXML ncxPath, RunParseNCX ncxPath])))
      else (case navItem env packageDocument of
              None \<Rightarrow> (Map.empty, [])
            | Some item \<Rightarrow>
                (let navPath = Resolve env (Path packageDocument) (ItemHref item) in
                 case ReadAsXML f navPath [(NamespaceXHTML, ''html''), (NamespaceOPS, ''epub'')] of
                   Inl errx \<Rightarrow> (Map.empty, [ReadXML navPath])
                 | Inr n \<Rightarrow>
                     (ParseNavDoc env n navPath, [ReadXML navPath, RunParseNavDoc navPath]))))"

definition apple_path :: string where
  "apple_path = ''META-INF/com.apple.ibooks.display-options.xml''"

definition kobo_path :: string where
  "kobo_path = ''META-INF/com.kobobooks.display-options.xml''"

text \<open>Lines 162 to 168: the loop over the options, writing into \<open>ret\<close>.\<close>

fun options_loop :: "(string \<rightharpoonup> string) \<Rightarrow> xml list \<Rightarrow> (string \<rightharpoonup> string)" where
  "options_loop ret [] = ret"
| "options_loop ret (option # rest) =
     (let optName = SelectAttr option ''name'';
          optValue = InnerText option
      in options_loop (if optName \<noteq> '''' \<and> optValue \<noteq> '''' then ret(optName \<mapsto> optValue) else ret)
           rest)"

text \<open>Lines 161 to 170.\<close>

definition platform_options :: "xml \<Rightarrow> (string \<rightharpoonup> string)" where
  "platform_options displayOptionsXml =
     (case SelectElement_descendant displayOptionsXml ''platform'' of
        Some platform \<Rightarrow> options_loop Map.empty (SelectElements platform ''option'')
      | None \<Rightarrow> Map.empty)"

definition parseDisplayOptions :: "'a fetcher \<Rightarrow> (string \<rightharpoonup> string) \<times> event list" where
  "parseDisplayOptions f =
     (case ReadAsXML f apple_path [] of
        Inr displayOptionsXml \<Rightarrow> (platform_options displayOptionsXml, [ReadXML apple_path])
      | Inl err \<Rightarrow>
          (case ReadAsXML f kobo_path [] of
             Inl err' \<Rightarrow> (Map.empty, [ReadXML apple_path, ReadXML kobo_path])
           | Inr displayOptionsXml \<Rightarrow>
               (platform_options displayOptionsXml, [ReadXML apple_path, ReadXML kobo_path])))"

subsection \<open>The orchestrator\<close>

record Parser =
  reflowablePositionsStrategy :: ReflowableStrategy

definition NewParser :: "ReflowableStrategy option \<Rightarrow> Parser" where
  "NewParser strategy =
     \<lparr>reflowablePositionsStrategy =
        (case strategy of None \<Rightarrow> RecommendedReflowableStrategy | Some s \<Rightarrow> s)\<rparr>"

definition opf_namespaces :: "(namespace \<times> string) list" where
  "opf_namespaces =
     [(NamespaceOPF, ''opf''), (NamespaceDC, ''dc''), (VocabularyDCTerms, ''dcterms''),
      (NamespaceURI ''http://www.idpf.org/2013/rendition'', ''rendition'')]"

definition Parser_Parse ::
  "('a, 'e) epub_env \<Rightarrow> Parser \<Rightarrow> asset \<Rightarrow> 'a fetcher \<Rightarrow> error + 'a builder option" where
  "Parser_Parse env p a f =
     (let fallbackTitle = Name a in
      if \<not> EPUBEqual env (AssetMediaType a) (EPUB env) then Inr None
      else case GetRootFilePath env f of
        Inl err \<Rightarrow> Inl err
      | Inr opfPath \<Rightarrow>
          (case ReadAsXML f opfPath opf_namespaces of
             Inl errx \<Rightarrow> Inl errx
           | Inr opfXmlDocument \<Rightarrow>
               (case ParsePackageDocument env opfXmlDocument opfPath of
                  Inl err \<Rightarrow> Inl (Wrap err ''invalid OPF file'')
                | Inr packageDocument \<Rightarrow>
                    (let m = Create env
                               \<lparr>FallbackTitle = fallbackTitle,
                                FactoryPackageDocument = packageDocument,
                                NavigationData = fst (parseNavigationData env packageDocument f),
                                EncryptionData = fst (parseEncryptionData env f),
                                DisplayOptions = fst (parseDisplayOptions f)\<rparr>;
                         ffetcher =
                           (if Identifier (Metadata m) \<noteq> ''''
                            then NewTransformingFetcher env f
                                   (DeobfuscatorTransform (Identifier (Metadata m)))
                            else f);
                         services =
                           [(PositionsService_Name,
                             PositionsServiceFactory (reflowablePositionsStrategy p)),
                            (ContentService_Name, DefaultContentServiceFactory [HTMLFactory]),
                            (GuidedNavigationService_Name, MediaOverlayFactory)]
                     in Inr (Some \<lparr>BuilderManifest = m, BuilderFetcher = ffetcher,
                                    BuilderServices = services\<rparr>)))))"


section \<open>Concrete publications\<close>

text \<open>
  Instances of the collaborators and small archives, on which the theorems are run. The
  hidden-file test, the bitmap test and the media types are those of a plain archive of
  images; they stand in for the packages that the source imports.
\<close>

definition example_image_env :: "unit image_env" where
  "example_image_env =
     \<lparr>IsHiddenOrThumbs = (\<lambda>p. take 1 p = ''.'' \<or> p = ''Thumbs.db''),
      IsBitmap = (\<lambda>m. m \<in> set [''image/png'', ''image/jpeg'', ''image/gif'']),
      MediaTypeEqual = (\<lambda>m n. m = n),
      CBZ = ''application/vnd.comicbook+zip'',
      CBR = ''application/vnd.comicbook-rar'',
      URLPath = (\<lambda>h. h),
      guessPublicationTitleFromFileStructure = (\<lambda>f. ''''),
      WebpubManifestContext = ''https://readium.org/webpub-manifest/context.jsonld'',
      ProfileDivina = ''https://readium.org/webpub-manifest/profiles/divina''\<rparr>"

definition mk_link :: "string \<Rightarrow> mediatype \<Rightarrow> link" where
  "mk_link h m = \<lparr>Href = h, MediaType = m, Rels = []\<rparr>"

definition archive :: "link list \<Rightarrow> unit fetcher" where
  "archive ls =
     \<lparr>Links = Inr ls,
      Read = (\<lambda>h. Inl (ResourceError h)),
      ReadAsXML = (\<lambda>h ns. Inl (ResourceError h))\<rparr>"

definition zip_asset :: asset where
  "zip_asset = \<lparr>Name = ''book'', AssetMediaType = ''application/zip''\<rparr>"

definition cbz_asset :: asset where
  "cbz_asset = \<lparr>Name = ''comic'', AssetMediaType = ''application/vnd.comicbook+zip''\<rparr>"

definition exe_links :: "link list" where
  "exe_links =
     [mk_link ''page.png'' ''image/png'', mk_link ''setup.exe'' ''application/octet-stream'']"

definition abc_links :: "link list" where
  "abc_links =
     [mk_link ''b.jpg'' ''image/jpeg'', mk_link ''a.png'' ''image/png'',
      mk_link ''c.png'' ''image/png'']"

definition metadata_links :: "link list" where
  "metadata_links = [mk_link ''metadata.xml'' ''application/xml'']"

definition tagged_links :: "link list" where
  "tagged_links =
     [\<lparr>Href = ''2.png'', MediaType = ''image/png'', Rels = [''alternate'']\<rparr>,
      \<lparr>Href = ''1.png'', MediaType = ''image/png'', Rels = [''start'', ''first'']\<rparr>]"

definition example_builder :: "link list \<Rightarrow> link list \<Rightarrow> unit builder" where
  "example_builder ro ls =
     \<lparr>BuilderManifest =
        \<lparr>Context = [''https://readium.org/webpub-manifest/context.jsonld''],
         Metadata = \<lparr>Identifier = '''', LocalizedTitle = ''book'',
                     ConformsTo = [''https://readium.org/webpub-manifest/profiles/divina'']\<rparr>,
         ReadingOrder = ro\<rparr>,
      BuilderFetcher = archive ls,
      BuilderServices = [(PositionsService_Name, PerResourcePositionsServiceFactory ''image/*'')]\<rparr>"

definition example_transform :: "transform \<Rightarrow> string \<Rightarrow> string" where
  "example_transform t bytes = (case t of DeobfuscatorTransform key \<Rightarrow> key @ bytes)"

text \<open>
  An EPUB environment whose factory yields the identifier \<open>ident\<close> and whose package-document
  parser answers \<open>parsed\<close>.
\<close>

definition example_epub_env ::
  "string \<Rightarrow> error + PackageDocument \<Rightarrow> (unit, string) epub_env" where
  "example_epub_env ident parsed =
     \<lparr>EPUB = ''application/epub+zip'',
      EPUBEqual = (\<lambda>m n. m = n),
      NCX_Contains = (\<lambda>m. m = ''application/x-dtbncx+xml''),
      VocabularyItem = ''http://idpf.org/epub/vocab/package/item/#'',
      GetRootFilePath = (\<lambda>f. Inr ''OEBPS/content.opf''),
      ParsePackageDocument = (\<lambda>d path. parsed),
      Resolve = (\<lambda>base href. ''OEBPS/'' @ href),
      ParseNCX = (\<lambda>n p. [''toc'' \<mapsto> [mk_link p ''application/x-dtbncx+xml'']]),
      ParseNavDoc = (\<lambda>n p. [''toc'' \<mapsto> [mk_link p ''application/xhtml+xml'']]),
      ParseEncryption = (\<lambda>n. [''OEBPS/font.otf'' \<mapsto> ''http://www.idpf.org/2008/embedding'']),
      Create = (\<lambda>factory.
        \<lparr>Context = [],
         Metadata = \<lparr>Identifier = ident, LocalizedTitle = FallbackTitle factory,
                     ConformsTo = []\<rparr>,
         ReadingOrder = []\<rparr>),
      NewTransformingFetcher = (\<lambda>f t.
        f\<lparr>Read := (\<lambda>h. case Read f h of
                          Inl e \<Rightarrow> Inl e
                        | Inr bytes \<Rightarrow> Inr (example_transform t bytes))\<rparr>)\<rparr>"

definition container :: "(string \<times> xml) list \<Rightarrow> unit fetcher" where
  "container files =
     \<lparr>Links = Inr [],
      Read = (\<lambda>h. case map_of files h of
                     Some d \<Rightarrow> Inr (InnerText d)
                   | None \<Rightarrow> Inl (ResourceError h)),
      ReadAsXML = (\<lambda>h ns. case map_of files h of
                             Some d \<Rightarrow> Inr d
                           | None \<Rightarrow> Inl (ResourceError h))\<rparr>"

definition epub_asset :: asset where
  "epub_asset = \<lparr>Name = ''book.epub'', AssetMediaType = ''application/epub+zip''\<rparr>"

definition ncx_entry :: Item where
  "ncx_entry =
     \<lparr>ID = ''ncx'', ItemHref = ''toc.ncx'', ItemMediaType = ''application/x-dtbncx+xml'',
      Properties = []\<rparr>"

definition nav_entry :: Item where
  "nav_entry =
     \<lparr>ID = ''nav'', ItemHref = ''nav.xhtml'', ItemMediaType = ''application/xhtml+xml'',
      Properties = [''http://idpf.org/epub/vocab/package/item/#nav'']\<rparr>"

definition chapter_entry :: Item where
  "chapter_entry =
     \<lparr>ID = ''c1'', ItemHref = ''c1.xhtml'', ItemMediaType = ''application/xhtml+xml'',
      Properties = []\<rparr>"

definition example_package :: "float64 \<Rightarrow> string \<Rightarrow> PackageDocument" where
  "example_package v toc =
     \<lparr>Path = ''OEBPS/content.opf'', EPUBVersion = v,
      Manifest = [chapter_entry, ncx_entry, nav_entry], Spine = \<lparr>TOC = toc\<rparr>\<rparr>"

definition empty_element :: "string \<Rightarrow> xml" where
  "empty_element n = Element n [] []"

definition navigable_container :: "unit fetcher" where
  "navigable_container =
     container [(''OEBPS/content.opf'', empty_element ''package''),
                (''OEBPS/toc.ncx'', empty_element ''ncx''),
                (''OEBPS/nav.xhtml'', empty_element ''html'')]"

definition bare_container :: "unit fetcher" where
  "bare_container = container [(''OEBPS/content.opf'', empty_element ''package'')]"

definition kobo_options :: xml where
  "kobo_options =
     Element ''display_options'' []
       [Element ''platform'' [(''name'', ''*'')]
          [Element ''option'' [(''name'', ''fixed-layout'')] [Text ''true'']]]"

definition kobo_container :: "unit fetcher" where
  "kobo_container = container [(kobo_path, kobo_options)]"

definition apple_options :: xml where
  "apple_options =
     Element ''display_options'' []
       [Element ''platform'' [(''name'', ''*'')]
          [Element ''option'' [(''name'', ''fixed-layout'')] [Text ''false''],
           Element ''option'' [(''name'', ''orientation-lock'')] [],
           Element ''option'' [] [Text ''unnamed''],
           Element ''option'' [(''name'', ''fixed-layout'')] [Text ''true''],
           Element ''option'' [(''name'', ''open-to-spread'')] [Text ''tr'', Text ''ue'']]]"

definition both_container :: "unit fetcher" where
  "both_container = container [(apple_path, apple_options), (kobo_path, kobo_options)]"

definition plain_package :: "float64 \<Rightarrow> PackageDocument" where
  "plain_package v =
     \<lparr>Path = ''OEBPS/content.opf'', EPUBVersion = v,
      Manifest = [chapter_entry], Spine = \<lparr>TOC = ''''\<rparr>\<rparr>"

definition epub_builder :: "string \<Rightarrow> unit fetcher \<Rightarrow> unit builder" where
  "epub_builder ident ffetcher =
     \<lparr>BuilderManifest =
        \<lparr>Context = [],
         Metadata = \<lparr>Identifier = ident, LocalizedTitle = ''book.epub'', ConformsTo = []\<rparr>,
         ReadingOrder = []\<rparr>,
      BuilderFetcher = ffetcher,
      BuilderServices =
        [(PositionsService_Name, PositionsServiceFactory RecommendedReflowableStrategy),
         (ContentService_Name, DefaultContentServiceFactory [HTMLFactory]),
         (GuidedNavigationService_Name, MediaOverlayFactory)]\<rparr>"

lemmas image_example_defs =
  example_image_env_def mk_link_def archive_def zip_asset_def cbz_asset_def exe_links_def
  abc_links_def metadata_links_def tagged_links_def example_builder_def



section \<open>Properties of the image parser\<close>




lemma sort_by_href_nonempty: "xs \<noteq> [] \<Longrightarrow> sort_by_href xs \<noteq> []"
  by (metis length_sort sort_by_href_def length_0_conv)


lemma lexicographic_not_numeric:
  "map Href (sort_by_href [mk_link ''page2.png'' ''image/png'', mk_link ''page10.png'' ''image/png''])
     = [''page10.png'', ''page2.png'']"
  by (simp add: sort_by_href_def mk_link_def)






text \<open>
  Claim C8. Once the input is accepted and the links are listed, \<open>Parse\<close> fails with the error
  \<open>no bitmap found in the publication\<close> when the filter leaves no link; when it leaves one,
  \<open>Parse\<close> builds a publication and its reading order is not empty. So no manifest with an
  empty reading order is ever returned.
\<close>

theorem no_bitmap_error:
  assumes "accepts env a f = Inr True" and "Links f = Inr links"
  shows "(filter_links env links = []
            \<longrightarrow> ImageParser_Parse env a f = Inl (New ''no bitmap found in the publication''))
       \<and> (filter_links env links \<noteq> []
            \<longrightarrow> (\<exists>b. ImageParser_Parse env a f = Inr (Some b)
                      \<and> ReadingOrder (BuilderManifest b) \<noteq> []))"
proof (intro conjI impI)
  assume "filter_links env links = []"
  with assms show "ImageParser_Parse env a f = Inl (New ''no bitmap found in the publication'')"
    by (simp add: ImageParser_Parse_def)
next
  assume ne: "filter_links env links \<noteq> []"
  then have "tag_cover (sort_by_href (filter_links env links)) \<noteq> []"
    using sort_by_href_nonempty [OF ne] by (simp add: tag_cover_def)
  with assms ne
  show "\<exists>b. ImageParser_Parse env a f = Inr (Some b) \<and> ReadingOrder (BuilderManifest b) \<noteq> []"
    by (simp add: ImageParser_Parse_def Let_def)
qed

text \<open>
  An archive that holds only \<open>metadata.xml\<close> is accepted and then fails; the archive of three
  bitmaps is accepted and yields a reading order.
\<close>

theorem no_bitmap_error_witness:
  "accepts example_image_env zip_asset (archive metadata_links) = Inr True
   \<and> Links (archive metadata_links) = Inr metadata_links
   \<and> filter_links example_image_env metadata_links = []
   \<and> ImageParser_Parse example_image_env zip_asset (archive metadata_links)
       = Inl (New ''no bitmap found in the publication'')
   \<and> accepts example_image_env zip_asset (archive abc_links) = Inr True
   \<and> filter_links example_image_env abc_links \<noteq> []
   \<and> (\<exists>b. ImageParser_Parse example_image_env zip_asset (archive abc_links) = Inr (Some b)
          \<and> ReadingOrder (BuilderManifest b) \<noteq> [])"
proof -
  have acc: "accepts example_image_env zip_asset (archive metadata_links) = Inr True"
    by (simp add: image_example_defs accepts_def fext_def Ext_def ToLower_def toLowerByte_def
        allowed_extensions_image_def)
  have links: "Links (archive metadata_links) = Inr metadata_links"
    by (simp add: archive_def)
  have empty: "filter_links example_image_env metadata_links = []"
    by (simp add: image_example_defs filter_links_def relevant_def)
  have acc2: "accepts example_image_env zip_asset (archive abc_links) = Inr True"
    by (simp add: image_example_defs accepts_def)
  have links2: "Links (archive abc_links) = Inr abc_links"
    by (simp add: archive_def)
  have nonempty: "filter_links example_image_env abc_links \<noteq> []"
    by (simp add: image_example_defs filter_links_def relevant_def)
  from no_bitmap_error [OF acc links] no_bitmap_error [OF acc2 links2]
    acc links empty acc2 nonempty
  show ?thesis by blast
qed





section \<open>Properties of the EPUB parser\<close>

lemmas epub_example_defs =
  example_epub_env_def container_def epub_asset_def ncx_entry_def nav_entry_def
  chapter_entry_def example_package_def empty_element_def navigable_container_def
  bare_container_def kobo_options_def kobo_container_def mk_link_def example_transform_def
  apple_options_def both_container_def plain_package_def epub_builder_def

lemma f64_ge_not_less: "f64_ge v (F64 3) \<Longrightarrow> \<not> f64_less v (F64 3)"
  by (cases v) auto

lemma modern_trace:
  assumes "\<not> f64_less (EPUBVersion pd) (F64 3)"
  shows "RunParseNCX p \<notin> set (snd (parseNavigationData env pd f))"
  using assms by (auto simp: parseNavigationData_def Let_def split: option.splits sum.splits)

lemma legacy_trace:
  assumes "f64_less (EPUBVersion pd) (F64 3)"
  shows "RunParseNavDoc p \<notin> set (snd (parseNavigationData env pd f))"
  using assms by (auto simp: parseNavigationData_def Let_def split: option.splits sum.splits)

text \<open>
  Claim C1. For a version that is at least 3.0, the calls of \<open>parseNavigationData\<close> never
  include a run of the NCX grammar, its result does not change when the NCX media-type test
  and the NCX grammar are replaced by any others, and either nothing is returned and nothing
  is read, or the first read is that of the item with the \<open>nav\<close> property. For a version
  below 3.0 the same holds with the two strategies exchanged. (A version that is NaN is
  neither; the source sends it to the navigation document.)
\<close>

theorem navigation_strategy_exclusive:
  "(f64_ge (EPUBVersion pd) (F64 3) \<longrightarrow>
       (\<forall>p. RunParseNCX p \<notin> set (snd (parseNavigationData env pd f)))
     \<and> parseNavigationData (env\<lparr>NCX_Contains := c, ParseNCX := g\<rparr>) pd f
         = parseNavigationData env pd f
     \<and> (parseNavigationData env pd f = (Map.empty, [])
        \<or> (\<exists>item. navItem env pd = Some item
              \<and> hd (snd (parseNavigationData env pd f))
                  = ReadXML (Resolve env (Path pd) (ItemHref item)))))
   \<and> (f64_less (EPUBVersion pd) (F64 3) \<longrightarrow>
       (\<forall>p. RunParseNavDoc p \<notin> set (snd (parseNavigationData env pd f)))
     \<and> parseNavigationData (env\<lparr>VocabularyItem := v, ParseNavDoc := g\<rparr>) pd f
         = parseNavigationData env pd f
     \<and> (parseNavigationData env pd f = (Map.empty, [])
        \<or> (\<exists>item. ncxItem env pd = Some item
              \<and> hd (snd (parseNavigationData env pd f))
                  = ReadXML (Resolve env (Path pd) (ItemHref item)))))"
proof (intro conjI impI)
  assume "f64_ge (EPUBVersion pd) (F64 3)"
  then have modern: "\<not> f64_less (EPUBVersion pd) (F64 3)" by (rule f64_ge_not_less)
  then show "\<forall>p. RunParseNCX p \<notin> set (snd (parseNavigationData env pd f))"
    using modern_trace by blast
  from modern show "parseNavigationData (env\<lparr>NCX_Contains := c, ParseNCX := g\<rparr>) pd f
         = parseNavigationData env pd f"
    by (simp add: parseNavigationData_def navItem_def Let_def split: option.splits sum.splits)
  from modern show "parseNavigationData env pd f = (Map.empty, [])
        \<or> (\<exists>item. navItem env pd = Some item
              \<and> hd (snd (parseNavigationData env pd f))
                  = ReadXML (Resolve env (Path pd) (ItemHref item)))"
    by (auto simp: parseNavigationData_def Let_def split: option.splits sum.splits)
next
  assume legacy: "f64_less (EPUBVersion pd) (F64 3)"
  then show "\<forall>p. RunParseNavDoc p \<notin> set (snd (parseNavigationData env pd f))"
    using legacy_trace by blast
  from legacy show "parseNavigationData (env\<lparr>VocabularyItem := v, ParseNavDoc := g\<rparr>) pd f
         = parseNavigationData env pd f"
    by (simp add: parseNavigationData_def ncxItem_def Let_def split: option.splits sum.splits)
  from legacy show "parseNavigationData env pd f = (Map.empty, [])
        \<or> (\<exists>item. ncxItem env pd = Some item
              \<and> hd (snd (parseNavigationData env pd f))
                  = ReadXML (Resolve env (Path pd) (ItemHref item)))"
    by (auto simp: parseNavigationData_def Let_def split: option.splits sum.splits)
qed

text \<open>
  A package whose manifest has both an NCX entry (named by the spine) and a \<open>nav\<close> entry, in a
  container that holds both files: version 3 reads and parses only the navigation document,
  version 2 only the NCX file.
\<close>

theorem navigation_strategy_exclusive_witness:
  "f64_ge (EPUBVersion (example_package (F64 3) ''ncx'')) (F64 3)
   \<and> ncxItem (example_epub_env '''' (Inl (New ''unused''))) (example_package (F64 3) ''ncx'')
       = Some ncx_entry
   \<and> snd (parseNavigationData (example_epub_env '''' (Inl (New ''unused'')))
            (example_package (F64 3) ''ncx'') navigable_container)
       = [ReadXML ''OEBPS/nav.xhtml'', RunParseNavDoc ''OEBPS/nav.xhtml'']
   \<and> RunParseNCX ''OEBPS/toc.ncx''
       \<notin> set (snd (parseNavigationData (example_epub_env '''' (Inl (New ''unused'')))
                     (example_package (F64 3) ''ncx'') navigable_container))
   \<and> f64_less (EPUBVersion (example_package (F64 2) ''ncx'')) (F64 3)
   \<and> snd (parseNavigationData (example_epub_env '''' (Inl (New ''unused'')))
            (example_package (F64 2) ''ncx'') navigable_container)
       = [ReadXML ''OEBPS/toc.ncx'', RunParseNCX ''OEBPS/toc.ncx'']
   \<and> RunParseNavDoc ''OEBPS/nav.xhtml''
       \<notin> set (snd (parseNavigationData (example_epub_env '''' (Inl (New ''unused'')))
                     (example_package (F64 2) ''ncx'') navigable_container))"
proof -
  let ?env = "example_epub_env '''' (Inl (New ''unused''))"
  have v3: "f64_ge (EPUBVersion (example_package (F64 3) ''ncx'')) (F64 3)"
    by (simp add: example_package_def)
  have v2: "f64_less (EPUBVersion (example_package (F64 2) ''ncx'')) (F64 3)"
    by (simp add: example_package_def)
  have ncx: "ncxItem ?env (example_package (F64 3) ''ncx'') = Some ncx_entry"
    by (simp add: ncxItem_def epub_example_defs)
  have t3: "snd (parseNavigationData ?env (example_package (F64 3) ''ncx'') navigable_container)
       = [ReadXML ''OEBPS/nav.xhtml'', RunParseNavDoc ''OEBPS/nav.xhtml'']"
    by (simp add: parseNavigationData_def navItem_def Let_def epub_example_defs)
  have t2: "snd (parseNavigationData ?env (example_package (F64 2) ''ncx'') navigable_container)
       = [ReadXML ''OEBPS/toc.ncx'', RunParseNCX ''OEBPS/toc.ncx'']"
    by (simp add: parseNavigationData_def ncxItem_def Let_def epub_example_defs)
  from navigation_strategy_exclusive [of "example_package (F64 3) ''ncx''" ?env navigable_container]
       navigation_strategy_exclusive [of "example_package (F64 2) ''ncx''" ?env navigable_container]
       v3 v2 ncx t3 t2
  show ?thesis by blast
qed

lemma find_first_index:
  assumes "i < length xs" and "P (xs ! i)" and "\<forall>j<i. \<not> P (xs ! j)"
  shows "find P xs = Some (xs ! i)"
  using assms by (auto simp: find_Some_iff)

lemma legacy_selected:
  assumes "f64_less (EPUBVersion pd) (F64 3)" and "ncxItem env pd = Some item"
  shows "parseNavigationData env pd f =
           (case ReadAsXML f (Resolve env (Path pd) (ItemHref item)) [(NamespaceNCX, ''ncx'')] of
              Inl nerr \<Rightarrow> (Map.empty, [ReadXML (Resolve env (Path pd) (ItemHref item))])
            | Inr n \<Rightarrow> (ParseNCX env n (Resolve env (Path pd) (ItemHref item)),
                        [ReadXML (Resolve env (Path pd) (ItemHref item)),
                         RunParseNCX (Resolve env (Path pd) (ItemHref item))]))"
  using assms by (simp add: parseNavigationData_def Let_def)

lemma legacy_none:
  assumes "f64_less (EPUBVersion pd) (F64 3)" and "ncxItem env pd = None"
  shows "parseNavigationData env pd f = (Map.empty, [])"
  using assms by (simp add: parseNavigationData_def)

text \<open>
  Claim C2, as the source has it. For a version below 3.0: when the spine names a
  table-of-contents id, the item read is the first manifest entry with that id, and when no
  entry has it the result is empty and nothing is read, whatever the media types of the
  entries are; when the spine names no id, the item read is the first manifest entry of NCX
  media type, and when there is none the result is empty and nothing is read.
\<close>

theorem legacy_item_selection:
  assumes "f64_less (EPUBVersion pd) (F64 3)"
  shows "(TOC (Spine pd) \<noteq> '''' \<and> (\<forall>v \<in> set (Manifest pd). ID v \<noteq> TOC (Spine pd))
            \<longrightarrow> parseNavigationData env pd f = (Map.empty, []))
       \<and> (TOC (Spine pd) \<noteq> '''' \<and> i < length (Manifest pd)
            \<and> ID (Manifest pd ! i) = TOC (Spine pd)
            \<and> (\<forall>j<i. ID (Manifest pd ! j) \<noteq> TOC (Spine pd))
            \<longrightarrow> ncxItem env pd = Some (Manifest pd ! i)
              \<and> hd (snd (parseNavigationData env pd f))
                  = ReadXML (Resolve env (Path pd) (ItemHref (Manifest pd ! i))))
       \<and> (TOC (Spine pd) = '''' \<and> i < length (Manifest pd)
            \<and> NCX_Contains env (ItemMediaType (Manifest pd ! i))
            \<and> (\<forall>j<i. \<not> NCX_Contains env (ItemMediaType (Manifest pd ! j)))
            \<longrightarrow> ncxItem env pd = Some (Manifest pd ! i)
              \<and> hd (snd (parseNavigationData env pd f))
                  = ReadXML (Resolve env (Path pd) (ItemHref (Manifest pd ! i))))
       \<and> (TOC (Spine pd) = ''''
            \<and> (\<forall>v \<in> set (Manifest pd). \<not> NCX_Contains env (ItemMediaType v))
            \<longrightarrow> parseNavigationData env pd f = (Map.empty, []))"
proof (intro conjI impI)
  assume "TOC (Spine pd) \<noteq> '''' \<and> (\<forall>v \<in> set (Manifest pd). ID v \<noteq> TOC (Spine pd))"
  then have "ncxItem env pd = None" by (simp add: ncxItem_def find_None_iff)
  with assms show "parseNavigationData env pd f = (Map.empty, [])" by (rule legacy_none)
next
  assume h: "TOC (Spine pd) \<noteq> '''' \<and> i < length (Manifest pd)
            \<and> ID (Manifest pd ! i) = TOC (Spine pd)
            \<and> (\<forall>j<i. ID (Manifest pd ! j) \<noteq> TOC (Spine pd))"
  then have "find (\<lambda>v. ID v = TOC (Spine pd)) (Manifest pd) = Some (Manifest pd ! i)"
    by (intro find_first_index) auto
  with h show sel: "ncxItem env pd = Some (Manifest pd ! i)" by (simp add: ncxItem_def)
  show "hd (snd (parseNavigationData env pd f))
                  = ReadXML (Resolve env (Path pd) (ItemHref (Manifest pd ! i)))"
    by (simp add: legacy_selected [OF assms sel] split: sum.splits)
next
  assume h: "TOC (Spine pd) = '''' \<and> i < length (Manifest pd)
            \<and> NCX_Contains env (ItemMediaType (Manifest pd ! i))
            \<and> (\<forall>j<i. \<not> NCX_Contains env (ItemMediaType (Manifest pd ! j)))"
  then have "find (\<lambda>v. NCX_Contains env (ItemMediaType v)) (Manifest pd) = Some (Manifest pd ! i)"
    by (intro find_first_index) auto
  with h show sel: "ncxItem env pd = Some (Manifest pd ! i)" by (simp add: ncxItem_def)
  show "hd (snd (parseNavigationData env pd f))
                  = ReadXML (Resolve env (Path pd) (ItemHref (Manifest pd ! i)))"
    by (simp add: legacy_selected [OF assms sel] split: sum.splits)
next
  assume "TOC (Spine pd) = ''''
            \<and> (\<forall>v \<in> set (Manifest pd). \<not> NCX_Contains env (ItemMediaType v))"
  then have "ncxItem env pd = None" by (simp add: ncxItem_def find_None_iff)
  with assms show "parseNavigationData env pd f = (Map.empty, [])" by (rule legacy_none)
qed

text \<open>
  The example package at version 2: with the spine id \<open>ncx\<close> and with no spine id the second
  manifest entry is chosen and \<open>OEBPS/toc.ncx\<close> is read; with the spine id \<open>missing\<close>
  nothing is read.
\<close>

theorem legacy_item_selection_witness:
  "f64_less (EPUBVersion (example_package (F64 2) ''ncx'')) (F64 3)
   \<and> ncxItem (example_epub_env '''' (Inl (New ''unused''))) (example_package (F64 2) ''ncx'')
       = Some (Manifest (example_package (F64 2) ''ncx'') ! 1)
   \<and> hd (snd (parseNavigationData (example_epub_env '''' (Inl (New ''unused'')))
                (example_package (F64 2) ''ncx'') navigable_container))
       = ReadXML ''OEBPS/toc.ncx''
   \<and> ncxItem (example_epub_env '''' (Inl (New ''unused''))) (example_package (F64 2) '''')
       = Some (Manifest (example_package (F64 2) '''') ! 1)
   \<and> parseNavigationData (example_epub_env '''' (Inl (New ''unused'')))
        (example_package (F64 2) ''missing'') navigable_container = (Map.empty, [])"
proof -
  let ?env = "example_epub_env '''' (Inl (New ''unused''))"
  have v: "\<And>t. f64_less (EPUBVersion (example_package (F64 2) t)) (F64 3)"
    by (simp add: example_package_def)
  have a: "TOC (Spine (example_package (F64 2) ''ncx'')) \<noteq> ''''
       \<and> 1 < length (Manifest (example_package (F64 2) ''ncx''))
       \<and> ID (Manifest (example_package (F64 2) ''ncx'') ! 1) = TOC (Spine (example_package (F64 2) ''ncx''))
       \<and> (\<forall>j<1. ID (Manifest (example_package (F64 2) ''ncx'') ! j) \<noteq> TOC (Spine (example_package (F64 2) ''ncx'')))"
    by (simp add: epub_example_defs)
  have b: "TOC (Spine (example_package (F64 2) '''')) = ''''
       \<and> 1 < length (Manifest (example_package (F64 2) ''''))
       \<and> NCX_Contains ?env (ItemMediaType (Manifest (example_package (F64 2) '''') ! 1))
       \<and> (\<forall>j<1. \<not> NCX_Contains ?env (ItemMediaType (Manifest (example_package (F64 2) '''') ! j)))"
    by (simp add: epub_example_defs)
  have c: "TOC (Spine (example_package (F64 2) ''missing'')) \<noteq> ''''
       \<and> (\<forall>v \<in> set (Manifest (example_package (F64 2) ''missing'')).
            ID v \<noteq> TOC (Spine (example_package (F64 2) ''missing'')))"
    by (simp add: epub_example_defs)
  have r: "Resolve ?env (Path (example_package (F64 2) ''ncx''))
             (ItemHref (Manifest (example_package (F64 2) ''ncx'') ! 1)) = ''OEBPS/toc.ncx''"
    by (simp add: epub_example_defs)
  from legacy_item_selection [where pd = "example_package (F64 2) ''ncx''" and env = ?env
         and i = 1 and f = navigable_container] a r
       legacy_item_selection [where pd = "example_package (F64 2) ''''" and env = ?env
         and i = 1 and f = navigable_container] b
       legacy_item_selection [where pd = "example_package (F64 2) ''missing''" and env = ?env
         and i = 1 and f = navigable_container] c v
  show ?thesis by simp
qed

text \<open>
  The choice differs from the one the specification words (id first, media type otherwise):
  with the spine id \<open>missing\<close>, which no entry carries, that rule picks the NCX entry, whose
  file the container holds, while the source picks nothing, reads nothing and returns the
  empty map.
\<close>

theorem legacy_fallback_counterexample:
  "f64_less (EPUBVersion (example_package (F64 2) ''missing'')) (F64 3)
   \<and> spec_ncxItem (example_epub_env '''' (Inl (New ''unused''))) (example_package (F64 2) ''missing'')
       = Some ncx_entry
   \<and> ReadAsXML navigable_container ''OEBPS/toc.ncx'' [(NamespaceNCX, ''ncx'')]
       = Inr (empty_element ''ncx'')
   \<and> ncxItem (example_epub_env '''' (Inl (New ''unused''))) (example_package (F64 2) ''missing'')
       = None
   \<and> snd (parseNavigationData (example_epub_env '''' (Inl (New ''unused'')))
            (example_package (F64 2) ''missing'') navigable_container) = []
   \<and> dom (fst (parseNavigationData (example_epub_env '''' (Inl (New ''unused'')))
            (example_package (F64 2) ''missing'') navigable_container)) = {}"
  by (simp add: parseNavigationData_def ncxItem_def spec_ncxItem_def Let_def epub_example_defs)

lemma options_loop_map_of:
  "options_loop ret opts =
     ret ++ map_of (rev (filter (\<lambda>(n, v). n \<noteq> '''' \<and> v \<noteq> '''')
                          (map (\<lambda>option. (SelectAttr option ''name'', InnerText option)) opts)))"
  by (induction opts arbitrary: ret) (simp_all add: Let_def)

lemma Parser_Parse_built:
  assumes "EPUBEqual env (AssetMediaType a) (EPUB env)"
    and "GetRootFilePath env f = Inr opfPath"
    and "ReadAsXML f opfPath opf_namespaces = Inr d"
    and "ParsePackageDocument env d opfPath = Inr pd"
  shows "\<exists>b. Parser_Parse env p a f = Inr (Some b)
           \<and> BuilderManifest b
               = Create env \<lparr>FallbackTitle = Name a, FactoryPackageDocument = pd,
                             NavigationData = fst (parseNavigationData env pd f),
                             EncryptionData = fst (parseEncryptionData env f),
                             DisplayOptions = fst (parseDisplayOptions f)\<rparr>"
  using assms by (simp add: Parser_Parse_def Let_def)

lemma Parser_Parse_error:
  assumes "Parser_Parse env p a f = Inl e"
  shows "GetRootFilePath env f = Inl e
       \<or> (\<exists>opfPath. GetRootFilePath env f = Inr opfPath
            \<and> (ReadAsXML f opfPath opf_namespaces = Inl e
               \<or> (\<exists>d e'. ReadAsXML f opfPath opf_namespaces = Inr d
                     \<and> ParsePackageDocument env d opfPath = Inl e'
                     \<and> e = Wrap e' ''invalid OPF file'')))"
  using assms
  by (auto simp: Parser_Parse_def Let_def split: if_splits sum.splits)

text \<open>
  Claim C4. \<open>parseNavigationData\<close> returns the empty map when no item is chosen and when
  the read of the chosen item fails, in either version; \<open>parseEncryptionData\<close> returns the
  empty map when the read of the encryption document fails; \<open>parseDisplayOptions\<close> returns
  the empty map when both reads fail. (A read is the fetch and the XML parse together.) Of
  \<open>Parse\<close>: once the media type is EPUB, the package document is located, read and parsed,
  a builder is returned whose manifest is made from the three maps, whatever they are; and
  an error of \<open>Parse\<close> is always the error of locating, reading or parsing the package
  document.
\<close>

theorem soft_concerns_degrade:
  "(f64_less (EPUBVersion pd) (F64 3) \<and> ncxItem env pd = None
      \<longrightarrow> fst (parseNavigationData env pd f) = Map.empty)
   \<and> (\<not> f64_less (EPUBVersion pd) (F64 3) \<and> navItem env pd = None
      \<longrightarrow> fst (parseNavigationData env pd f) = Map.empty)
   \<and> (f64_less (EPUBVersion pd) (F64 3) \<and> ncxItem env pd = Some item
        \<and> ReadAsXML f (Resolve env (Path pd) (ItemHref item)) [(NamespaceNCX, ''ncx'')] = Inl e
      \<longrightarrow> fst (parseNavigationData env pd f) = Map.empty)
   \<and> (\<not> f64_less (EPUBVersion pd) (F64 3) \<and> navItem env pd = Some item
        \<and> ReadAsXML f (Resolve env (Path pd) (ItemHref item))
              [(NamespaceXHTML, ''html''), (NamespaceOPS, ''epub'')] = Inl e
      \<longrightarrow> fst (parseNavigationData env pd f) = Map.empty)
   \<and> (ReadAsXML f encryption_path
          [(NamespaceENC, ''enc''), (NamespaceSIG, ''ds''), (NamespaceCOMP, ''comp'')] = Inl e
      \<longrightarrow> fst (parseEncryptionData env f) = Map.empty)
   \<and> (ReadAsXML f apple_path [] = Inl e \<and> ReadAsXML f kobo_path [] = Inl e'
      \<longrightarrow> fst (parseDisplayOptions f) = Map.empty)
   \<and> (EPUBEqual env (AssetMediaType a) (EPUB env) \<and> GetRootFilePath env f = Inr opfPath
        \<and> ReadAsXML f opfPath opf_namespaces = Inr d
        \<and> ParsePackageDocument env d opfPath = Inr pd
      \<longrightarrow> (\<exists>b. Parser_Parse env p a f = Inr (Some b)
             \<and> BuilderManifest b
                 = Create env \<lparr>FallbackTitle = Name a, FactoryPackageDocument = pd,
                               NavigationData = fst (parseNavigationData env pd f),
                               EncryptionData = fst (parseEncryptionData env f),
                               DisplayOptions = fst (parseDisplayOptions f)\<rparr>))
   \<and> (Parser_Parse env p a f = Inl err
      \<longrightarrow> GetRootFilePath env f = Inl err
          \<or> (\<exists>opf. GetRootFilePath env f = Inr opf
               \<and> (ReadAsXML f opf opf_namespaces = Inl err
                  \<or> (\<exists>x e'. ReadAsXML f opf opf_namespaces = Inr x
                        \<and> ParsePackageDocument env x opf = Inl e'
                        \<and> err = Wrap e' ''invalid OPF file''))))"
proof (intro conjI impI)
  assume "f64_less (EPUBVersion pd) (F64 3) \<and> ncxItem env pd = None"
  then show "fst (parseNavigationData env pd f) = Map.empty"
    by (simp add: parseNavigationData_def)
next
  assume "\<not> f64_less (EPUBVersion pd) (F64 3) \<and> navItem env pd = None"
  then show "fst (parseNavigationData env pd f) = Map.empty"
    by (simp add: parseNavigationData_def)
next
  assume "f64_less (EPUBVersion pd) (F64 3) \<and> ncxItem env pd = Some item
        \<and> ReadAsXML f (Resolve env (Path pd) (ItemHref item)) [(NamespaceNCX, ''ncx'')] = Inl e"
  then show "fst (parseNavigationData env pd f) = Map.empty"
    by (simp add: parseNavigationData_def Let_def)
next
  assume "\<not> f64_less (EPUBVersion pd) (F64 3) \<and> navItem env pd = Some item
        \<and> ReadAsXML f (Resolve env (Path pd) (ItemHref item))
              [(NamespaceXHTML, ''html''), (NamespaceOPS, ''epub'')] = Inl e"
  then show "fst (parseNavigationData env pd f) = Map.empty"
    by (simp add: parseNavigationData_def Let_def)
next
  assume "ReadAsXML f encryption_path
          [(NamespaceENC, ''enc''), (NamespaceSIG, ''ds''), (NamespaceCOMP, ''comp'')] = Inl e"
  then show "fst (parseEncryptionData env f) = Map.empty"
    by (simp add: parseEncryptionData_def)
next
  assume "ReadAsXML f apple_path [] = Inl e \<and> ReadAsXML f kobo_path [] = Inl e'"
  then show "fst (parseDisplayOptions f) = Map.empty"
    by (simp add: parseDisplayOptions_def)
next
  assume "EPUBEqual env (AssetMediaType a) (EPUB env) \<and> GetRootFilePath env f = Inr opfPath
        \<and> ReadAsXML f opfPath opf_namespaces = Inr d
        \<and> ParsePackageDocument env d opfPath = Inr pd"
  then show "\<exists>b. Parser_Parse env p a f = Inr (Some b)
             \<and> BuilderManifest b
                 = Create env \<lparr>FallbackTitle = Name a, FactoryPackageDocument = pd,
                               NavigationData = fst (parseNavigationData env pd f),
                               EncryptionData = fst (parseEncryptionData env f),
                               DisplayOptions = fst (parseDisplayOptions f)\<rparr>"
    using Parser_Parse_built by blast
next
  assume "Parser_Parse env p a f = Inl err"
  then show "GetRootFilePath env f = Inl err
          \<or> (\<exists>opf. GetRootFilePath env f = Inr opf
               \<and> (ReadAsXML f opf opf_namespaces = Inl err
                  \<or> (\<exists>x e'. ReadAsXML f opf opf_namespaces = Inr x
                        \<and> ParsePackageDocument env x opf = Inl e'
                        \<and> err = Wrap e' ''invalid OPF file'')))"
    by (rule Parser_Parse_error)
qed

text \<open>
  A container that holds the package document and nothing else, for a version 3 package
  whose manifest names a navigation document: the three reads fail, the three maps are empty,
  and \<open>Parse\<close> returns a builder.
\<close>

theorem soft_concerns_degrade_witness:
  "\<not> f64_less (EPUBVersion (example_package (F64 3) ''ncx'')) (F64 3)
   \<and> navItem (example_epub_env '''' (Inr (example_package (F64 3) ''ncx'')))
       (example_package (F64 3) ''ncx'') = Some nav_entry
   \<and> ReadAsXML bare_container ''OEBPS/nav.xhtml''
       [(NamespaceXHTML, ''html''), (NamespaceOPS, ''epub'')] = Inl (ResourceError ''OEBPS/nav.xhtml'')
   \<and> fst (parseNavigationData (example_epub_env '''' (Inr (example_package (F64 3) ''ncx'')))
            (example_package (F64 3) ''ncx'') bare_container) = Map.empty
   \<and> fst (parseEncryptionData (example_epub_env '''' (Inr (example_package (F64 3) ''ncx'')))
            bare_container) = Map.empty
   \<and> fst (parseDisplayOptions bare_container) = Map.empty
   \<and> ReadAsXML bare_container ''OEBPS/content.opf'' opf_namespaces
       = Inr (empty_element ''package'')
   \<and> (\<exists>b. Parser_Parse (example_epub_env '''' (Inr (example_package (F64 3) ''ncx'')))
            (NewParser None) epub_asset bare_container = Inr (Some b))"
proof -
  let ?pd = "example_package (F64 3) ''ncx''"
  let ?env = "example_epub_env '''' (Inr ?pd)"
  have version: "\<not> f64_less (EPUBVersion ?pd) (F64 3)"
    by (simp add: example_package_def)
  have nav: "navItem ?env ?pd = Some nav_entry"
    by (simp add: navItem_def epub_example_defs)
  have path: "Resolve ?env (Path ?pd) (ItemHref nav_entry) = ''OEBPS/nav.xhtml''"
    by (simp add: epub_example_defs)
  have nav_read: "ReadAsXML bare_container ''OEBPS/nav.xhtml''
       [(NamespaceXHTML, ''html''), (NamespaceOPS, ''epub'')] = Inl (ResourceError ''OEBPS/nav.xhtml'')"
    by (simp add: epub_example_defs)
  have enc_read: "ReadAsXML bare_container encryption_path
          [(NamespaceENC, ''enc''), (NamespaceSIG, ''ds''), (NamespaceCOMP, ''comp'')]
        = Inl (ResourceError encryption_path)"
    by (simp add: epub_example_defs encryption_path_def)
  have apple_read: "ReadAsXML bare_container apple_path [] = Inl (ResourceError apple_path)"
    by (simp add: epub_example_defs apple_path_def)
  have kobo_read: "ReadAsXML bare_container kobo_path [] = Inl (ResourceError kobo_path)"
    by (simp add: epub_example_defs kobo_path_def)
  have media: "EPUBEqual ?env (AssetMediaType epub_asset) (EPUB ?env)"
    by (simp add: epub_example_defs)
  have root: "GetRootFilePath ?env bare_container = Inr ''OEBPS/content.opf''"
    by (simp add: epub_example_defs)
  have opf_read: "ReadAsXML bare_container ''OEBPS/content.opf'' opf_namespaces
       = Inr (empty_element ''package'')"
    by (simp add: epub_example_defs)
  have parsed: "ParsePackageDocument ?env (empty_element ''package'') ''OEBPS/content.opf'' = Inr ?pd"
    by (simp add: example_epub_env_def)
  note inst = soft_concerns_degrade [where pd = ?pd and env = ?env and f = bare_container
      and item = nav_entry and e = "ResourceError ''OEBPS/nav.xhtml''" and a = epub_asset
      and opfPath = "''OEBPS/content.opf''" and d = "empty_element ''package''"
      and p = "NewParser None"]
  note inst_enc = soft_concerns_degrade [where env = ?env and f = bare_container
      and e = "ResourceError encryption_path"]
  note inst_opt = soft_concerns_degrade [where f = bare_container
      and e = "ResourceError apple_path" and e' = "ResourceError kobo_path"]
  from inst version nav path nav_read
  have r1: "fst (parseNavigationData ?env ?pd bare_container) = Map.empty" by simp
  from inst_enc enc_read
  have r2: "fst (parseEncryptionData ?env bare_container) = Map.empty" by blast
  from inst_opt apple_read kobo_read
  have r3: "fst (parseDisplayOptions bare_container) = Map.empty" by blast
  from inst media root opf_read parsed
  have r4: "\<exists>b. Parser_Parse ?env (NewParser None) epub_asset bare_container = Inr (Some b)"
    by blast
  from version nav nav_read r1 r2 r3 opf_read r4 show ?thesis by blast
qed

text \<open>
  Claim C5. In a builder returned by \<open>Parse\<close>, the fetcher is the fetcher given to \<open>Parse\<close>
  when the identifier of the manifest is empty, and otherwise it is that fetcher wrapped by
  \<open>NewTransformingFetcher\<close> with the transform of the deobfuscator keyed by the identifier.
\<close>

theorem transform_iff_identifier:
  assumes "Parser_Parse env p a f = Inr (Some b)"
  shows "(Identifier (Metadata (BuilderManifest b)) = '''' \<longrightarrow> BuilderFetcher b = f)
       \<and> (Identifier (Metadata (BuilderManifest b)) \<noteq> ''''
            \<longrightarrow> BuilderFetcher b
                  = NewTransformingFetcher env f
                      (DeobfuscatorTransform (Identifier (Metadata (BuilderManifest b)))))"
  using assms
  by (auto simp: Parser_Parse_def Let_def split: if_splits sum.splits)

text \<open>
  The same container parsed twice: with no identifier the builder holds the container itself;
  with the identifier \<open>urn:uuid:1\<close> it holds the wrapped fetcher, whose reads pass through
  the transform while those of the container do not.
\<close>

theorem transform_iff_identifier_witness:
  "Parser_Parse (example_epub_env '''' (Inr (plain_package (F64 3)))) (NewParser None)
       epub_asset bare_container
     = Inr (Some (epub_builder '''' bare_container))
   \<and> BuilderFetcher (epub_builder '''' bare_container) = bare_container
   \<and> Parser_Parse (example_epub_env ''urn:uuid:1'' (Inr (plain_package (F64 3)))) (NewParser None)
       epub_asset bare_container
     = Inr (Some (epub_builder ''urn:uuid:1''
         (NewTransformingFetcher (example_epub_env ''urn:uuid:1'' (Inr (plain_package (F64 3))))
            bare_container (DeobfuscatorTransform ''urn:uuid:1''))))
   \<and> Read (BuilderFetcher (epub_builder ''urn:uuid:1''
         (NewTransformingFetcher (example_epub_env ''urn:uuid:1'' (Inr (plain_package (F64 3))))
            bare_container (DeobfuscatorTransform ''urn:uuid:1'')))) ''OEBPS/content.opf''
       = Inr ''urn:uuid:1''
   \<and> Read bare_container ''OEBPS/content.opf'' = Inr ''''"
proof -
  let ?env0 = "example_epub_env '''' (Inr (plain_package (F64 3)))"
  let ?env1 = "example_epub_env ''urn:uuid:1'' (Inr (plain_package (F64 3)))"
  let ?wrapped = "NewTransformingFetcher ?env1 bare_container (DeobfuscatorTransform ''urn:uuid:1'')"
  have p0: "Parser_Parse ?env0 (NewParser None) epub_asset bare_container
              = Inr (Some (epub_builder '''' bare_container))"
    by (simp add: Parser_Parse_def NewParser_def opf_namespaces_def Let_def epub_example_defs)
  have p1: "Parser_Parse ?env1 (NewParser None) epub_asset bare_container
              = Inr (Some (epub_builder ''urn:uuid:1'' ?wrapped))"
    by (simp add: Parser_Parse_def NewParser_def opf_namespaces_def Let_def epub_example_defs)
  have id0: "Identifier (Metadata (BuilderManifest (epub_builder '''' bare_container))) = ''''"
    by (simp add: epub_builder_def)
  have id1: "Identifier (Metadata (BuilderManifest (epub_builder ''urn:uuid:1'' ?wrapped)))
               = ''urn:uuid:1''"
    by (simp add: epub_builder_def)
  from transform_iff_identifier [OF p0] id0
  have f0: "BuilderFetcher (epub_builder '''' bare_container) = bare_container" by blast
  from transform_iff_identifier [OF p1] id1
  have f1: "BuilderFetcher (epub_builder ''urn:uuid:1'' ?wrapped) = ?wrapped" by simp
  have r1: "Read ?wrapped ''OEBPS/content.opf'' = Inr ''urn:uuid:1''"
    by (simp add: epub_example_defs)
  have r0: "Read bare_container ''OEBPS/content.opf'' = Inr ''''"
    by (simp add: epub_example_defs)
  from p0 f0 p1 f1 r1 r0 show ?thesis by simp
qed

text \<open>
  Claim C6, as the source has it. Once the media type is EPUB and the package document is
  located, a failed read of the package document ends \<open>Parse\<close> with the error of the read,
  as it is; a failed parse of the document that was read ends \<open>Parse\<close> with that error
  wrapped in the context \<open>invalid OPF file\<close>.
\<close>

theorem package_descriptor_failure:
  assumes "EPUBEqual env (AssetMediaType a) (EPUB env)"
    and "GetRootFilePath env f = Inr opfPath"
  shows "(ReadAsXML f opfPath opf_namespaces = Inl e \<longrightarrow> Parser_Parse env p a f = Inl e)
       \<and> (ReadAsXML f opfPath opf_namespaces = Inr d \<and> ParsePackageDocument env d opfPath = Inl e
            \<longrightarrow> Parser_Parse env p a f = Inl (Wrap e ''invalid OPF file''))"
  using assms by (simp add: Parser_Parse_def)

text \<open>
  An empty container, where the read fails, and a container whose package document is read
  and then refused by the parser.
\<close>

theorem package_descriptor_failure_witness:
  "EPUBEqual (example_epub_env '''' (Inl (New ''no package element'')))
      (AssetMediaType epub_asset) (EPUB (example_epub_env '''' (Inl (New ''no package element''))))
   \<and> GetRootFilePath (example_epub_env '''' (Inl (New ''no package element''))) (container [])
       = Inr ''OEBPS/content.opf''
   \<and> ReadAsXML (container []) ''OEBPS/content.opf'' opf_namespaces
       = Inl (ResourceError ''OEBPS/content.opf'')
   \<and> Parser_Parse (example_epub_env '''' (Inl (New ''no package element''))) (NewParser None)
        epub_asset (container []) = Inl (ResourceError ''OEBPS/content.opf'')
   \<and> ReadAsXML bare_container ''OEBPS/content.opf'' opf_namespaces
       = Inr (empty_element ''package'')
   \<and> ParsePackageDocument (example_epub_env '''' (Inl (New ''no package element'')))
        (empty_element ''package'') ''OEBPS/content.opf'' = Inl (New ''no package element'')
   \<and> Parser_Parse (example_epub_env '''' (Inl (New ''no package element''))) (NewParser None)
        epub_asset bare_container = Inl (Wrap (New ''no package element'') ''invalid OPF file'')"
proof -
  let ?env = "example_epub_env '''' (Inl (New ''no package element''))"
  have media: "EPUBEqual ?env (AssetMediaType epub_asset) (EPUB ?env)"
    by (simp add: epub_example_defs)
  have root: "\<And>f. GetRootFilePath ?env f = Inr ''OEBPS/content.opf''"
    by (simp add: epub_example_defs)
  have missing: "ReadAsXML (container []) ''OEBPS/content.opf'' opf_namespaces
       = Inl (ResourceError ''OEBPS/content.opf'')"
    by (simp add: epub_example_defs)
  have present: "ReadAsXML bare_container ''OEBPS/content.opf'' opf_namespaces
       = Inr (empty_element ''package'')"
    by (simp add: epub_example_defs)
  have refused: "ParsePackageDocument ?env (empty_element ''package'') ''OEBPS/content.opf''
       = Inl (New ''no package element'')"
    by (simp add: example_epub_env_def)
  from package_descriptor_failure [OF media root, where f = "container []"
         and e = "ResourceError ''OEBPS/content.opf''" and p = "NewParser None"] missing
  have r1: "Parser_Parse ?env (NewParser None) epub_asset (container [])
              = Inl (ResourceError ''OEBPS/content.opf'')" by blast
  from package_descriptor_failure [OF media root, where f = bare_container
         and e = "New ''no package element''" and d = "empty_element ''package''"
         and p = "NewParser None"] present refused
  have r2: "Parser_Parse ?env (NewParser None) epub_asset bare_container
              = Inl (Wrap (New ''no package element'') ''invalid OPF file'')" by blast
  from media root missing r1 present refused r2 show ?thesis by blast
qed

text \<open>
  The read failure is not wrapped: on the empty container \<open>Parse\<close> returns the fetcher's own
  error for the package document, not that error in the context \<open>invalid OPF file\<close>.
\<close>

theorem unwrapped_read_error_counterexample:
  "ReadAsXML (container []) ''OEBPS/content.opf'' opf_namespaces
     = Inl (ResourceError ''OEBPS/content.opf'')
   \<and> Parser_Parse (example_epub_env '''' (Inl (New ''no package element''))) (NewParser None)
        epub_asset (container []) = Inl (ResourceError ''OEBPS/content.opf'')
   \<and> Parser_Parse (example_epub_env '''' (Inl (New ''no package element''))) (NewParser None)
        epub_asset (container [])
       \<noteq> Inl (Wrap (ResourceError ''OEBPS/content.opf'') ''invalid OPF file'')"
  by (simp add: Parser_Parse_def epub_example_defs)

text \<open>
  Claim C9. \<open>parseDisplayOptions\<close> reads the Apple document first; when that read succeeds
  the Kobo document is not read and the options are those of the Apple document. When it
  fails the Kobo document is read, and its options are returned if that read succeeds, the
  empty map otherwise. The options of a document are those of its first \<open>platform\<close>
  element: the name and inner text of each \<open>option\<close> child in turn, those with an empty name
  or an empty text left out, a later option replacing an earlier one of the same name; a
  document without \<open>platform\<close> element has none.
\<close>

theorem display_options_order:
  "(ReadAsXML f apple_path [] = Inr d
      \<longrightarrow> parseDisplayOptions f = (platform_options d, [ReadXML apple_path]))
   \<and> (ReadAsXML f apple_path [] = Inl e \<and> ReadAsXML f kobo_path [] = Inr d
      \<longrightarrow> parseDisplayOptions f = (platform_options d, [ReadXML apple_path, ReadXML kobo_path]))
   \<and> (ReadAsXML f apple_path [] = Inl e \<and> ReadAsXML f kobo_path [] = Inl e'
      \<longrightarrow> fst (parseDisplayOptions f) = Map.empty)
   \<and> (SelectElement_descendant d ''platform'' = Some platform
      \<longrightarrow> platform_options d
            = map_of (rev (filter (\<lambda>(n, v). n \<noteq> '''' \<and> v \<noteq> '''')
                (map (\<lambda>option. (SelectAttr option ''name'', InnerText option))
                   (SelectElements platform ''option'')))))
   \<and> (SelectElement_descendant d ''platform'' = None \<longrightarrow> platform_options d = Map.empty)"
  by (simp add: parseDisplayOptions_def platform_options_def options_loop_map_of)

text \<open>
  A container with only the Kobo document of the specification yields
  \<open>fixed-layout\<close> = \<open>true\<close> after both reads; a container with both documents yields the
  Apple options after one read; an empty container yields no option.
\<close>

theorem display_options_order_witness:
  "ReadAsXML kobo_container apple_path [] = Inl (ResourceError apple_path)
   \<and> ReadAsXML kobo_container kobo_path [] = Inr kobo_options
   \<and> parseDisplayOptions kobo_container
       = ([''fixed-layout'' \<mapsto> ''true''], [ReadXML apple_path, ReadXML kobo_path])
   \<and> ReadAsXML both_container apple_path [] = Inr apple_options
   \<and> parseDisplayOptions both_container
       = ([''fixed-layout'' \<mapsto> ''true'', ''open-to-spread'' \<mapsto> ''true''], [ReadXML apple_path])
   \<and> ReadAsXML (container []) kobo_path [] = Inl (ResourceError kobo_path)
   \<and> fst (parseDisplayOptions (container [])) = Map.empty"
proof -
  have k1: "ReadAsXML kobo_container apple_path [] = Inl (ResourceError apple_path)"
    by (simp add: epub_example_defs apple_path_def kobo_path_def)
  have k2: "ReadAsXML kobo_container kobo_path [] = Inr kobo_options"
    by (simp add: kobo_container_def container_def)
  have k3: "platform_options kobo_options = [''fixed-layout'' \<mapsto> ''true'']"
    by (simp add: platform_options_def SelectElement_descendant_def kobo_options_def Let_def)
  have b1: "ReadAsXML both_container apple_path [] = Inr apple_options"
    by (simp add: both_container_def container_def)
  have b2: "platform_options apple_options
              = [''fixed-layout'' \<mapsto> ''true'', ''open-to-spread'' \<mapsto> ''true'']"
    by (simp add: platform_options_def SelectElement_descendant_def apple_options_def Let_def)
  have n1: "ReadAsXML (container []) apple_path [] = Inl (ResourceError apple_path)"
    by (simp add: container_def)
  have n2: "ReadAsXML (container []) kobo_path [] = Inl (ResourceError kobo_path)"
    by (simp add: container_def)
  from display_options_order [where f = kobo_container and d = kobo_options
         and e = "ResourceError apple_path"] k1 k2 k3
  have r1: "parseDisplayOptions kobo_container
       = ([''fixed-layout'' \<mapsto> ''true''], [ReadXML apple_path, ReadXML kobo_path])"
    by simp
  from display_options_order [where f = both_container and d = apple_options] b1 b2
  have r2: "parseDisplayOptions both_container
       = ([''fixed-layout'' \<mapsto> ''true'', ''open-to-spread'' \<mapsto> ''true''], [ReadXML apple_path])"
    by simp
  from display_options_order [where f = "container []" and e = "ResourceError apple_path"
         and e' = "ResourceError kobo_path"] n1 n2
  have r3: "fst (parseDisplayOptions (container [])) = Map.empty" by blast
  from k1 k2 r1 b1 r2 n2 r3 show ?thesis by blast
qed

end
